theory Spec2Isabelle
  imports Complex_Main "HOL-Library.Multiset" "HOL-Library.Char_ord" "HOL-Library.List_Lexorder"
begin

section \<open>Nutrition records (models.py)\<close>

text \<open>
  \<^verbatim>\<open>NutritionInfo\<close> is a pydantic model with eight required fields: three texts and five
  floats. Python floats and SQLite \<^verbatim>\<open>REAL\<close> columns are modelled as real numbers, so sums and
  means are the exact ones; the rounding of IEEE doubles, NaN and the infinities are outside
  the model.
\<close>

record NutritionInfo =
  food_name :: string
  calories :: real
  protein_g :: real
  carbs_g :: real
  fats_g :: real
  fiber_g :: real
  serving_size :: string
  confidence :: string

section \<open>The history store (database.py)\<close>

subsection \<open>Table and time\<close>

text \<open>
  A Python \<^verbatim>\<open>datetime\<close> is a count of microseconds since 1970-01-01 00:00:00 UTC. The
  column \<^verbatim>\<open>analyzed_at\<close> is never written by the program: it takes its default
  \<^verbatim>\<open>CURRENT_TIMESTAMP\<close>, a UTC text \<^verbatim>\<open>YYYY-MM-DD HH:MM:SS\<close> with a resolution of one
  second, modelled as the count of whole seconds since the same epoch. \<^verbatim>\<open>DATE(analyzed_at)\<close>
  and the \<^verbatim>\<open>%Y-%m-%d\<close> texts are modelled as the count of whole days since the epoch; the
  text comparisons of the queries agree with the comparisons of these numbers.
\<close>

type_synonym datetime = int
type_synonym timestamp = int
type_synonym date = int

text \<open>
  The clock stays far inside the range of \<^verbatim>\<open>datetime\<close>, and user ids and limits are 64-bit
  integers, so the arithmetic on dates and the binding of query parameters raise nothing. Each
  operation of the store runs in a \<^verbatim>\<open>try\<close> whose \<^verbatim>\<open>except\<close> branch answers a failure of the
  database file; the model is of a file that can be read and written, where the only failure
  left is the exhaustion of the row ids.
\<close>

text \<open>A row of \<^verbatim>\<open>nutrition_history\<close>: the columns of a nutrition record and five more.\<close>

record history_row = NutritionInfo +
  row_id :: int
  user_id :: int
  username :: string
  analyzed_at :: timestamp
  photo_file_id :: string

text \<open>
  The database file: the rows of the table in insertion order, and the entry of the table in
  \<^verbatim>\<open>sqlite_sequence\<close>, the largest id that \<^verbatim>\<open>AUTOINCREMENT\<close> has handed out.
\<close>

record database =
  nutrition_history :: "history_row list"
  sqlite_sequence :: int

text \<open>\<^verbatim>\<open>init\<close> on a new file: the table exists and is empty.\<close>

definition init :: database where
  "init = \<lparr>nutrition_history = [], sqlite_sequence = 0\<rparr>"

definition CURRENT_TIMESTAMP :: "datetime \<Rightarrow> timestamp" where
  "CURRENT_TIMESTAMP now = now div 1000000"

definition DATE :: "timestamp \<Rightarrow> date" where
  "DATE t = t div 86400"

definition utc_date :: "datetime \<Rightarrow> date" where
  "utc_date now = DATE (CURRENT_TIMESTAMP now)"

definition timedelta_days :: "int \<Rightarrow> int" where
  "timedelta_days days = days * 86400000000"

text \<open>\<^verbatim>\<open>datetime.weekday()\<close>: Monday is 0; day 0 of the epoch was a Thursday.\<close>

definition weekday :: "date \<Rightarrow> int" where
  "weekday d = (d + 3) mod 7"

subsection \<open>The pieces of SQL the queries use\<close>

text \<open>
  SQL fixes the order of a result only as far as \<^verbatim>\<open>ORDER BY\<close> says; rows with equal sort
  keys come in an order of the engine's choosing. The engine's choice is a parameter of every
  ordered query: a function \<open>scan\<close> that rearranges the rows before the sort, which keeps
  rows with equal keys in the order \<open>scan\<close> left them in.
\<close>

definition rearranges :: "('a list \<Rightarrow> 'a list) \<Rightarrow> bool" where
  "rearranges scan = (\<forall>xs. mset (scan xs) = mset xs)"

definition order_by_desc :: "('a list \<Rightarrow> 'a list) \<Rightarrow> ('a \<Rightarrow> int) \<Rightarrow> 'a list \<Rightarrow> 'a list" where
  "order_by_desc scan k xs = sort_key (\<lambda>x. - k x) (scan xs)"

text \<open>\<^verbatim>\<open>LIMIT n\<close>: a negative \<open>n\<close> is no limit.\<close>

definition sql_limit :: "int \<Rightarrow> 'a list \<Rightarrow> 'a list" where
  "sql_limit n xs = (if n < 0 then xs else take (nat n) xs)"

text \<open>\<^verbatim>\<open>GROUP BY\<close>: one group for each distinct key, holding the rows with that key.\<close>

definition group_by :: "('a \<Rightarrow> 'k) \<Rightarrow> 'a list \<Rightarrow> ('k \<times> 'a list) list" where
  "group_by k xs = map (\<lambda>v. (v, filter (\<lambda>x. k x = v) xs)) (remdups (map k xs))"

definition sql_count :: "'a list \<Rightarrow> int" where
  "sql_count xs = int (length xs)"

definition sql_sum :: "real list \<Rightarrow> real" where
  "sql_sum xs = sum_list xs"

text \<open>\<^verbatim>\<open>AVG\<close>, \<^verbatim>\<open>MIN\<close> and \<^verbatim>\<open>MAX\<close> of no rows are \<^verbatim>\<open>NULL\<close>.\<close>

definition sql_avg :: "real list \<Rightarrow> real option" where
  "sql_avg xs = (if xs = [] then None else Some (sum_list xs / real (length xs)))"

definition sql_min :: "int list \<Rightarrow> int option" where
  "sql_min xs = (case xs of [] \<Rightarrow> None | y # ys \<Rightarrow> Some (fold min ys y))"

definition sql_max :: "int list \<Rightarrow> int option" where
  "sql_max xs = (case xs of [] \<Rightarrow> None | y # ys \<Rightarrow> Some (fold max ys y))"

definition sql_count_distinct :: "'k list \<Rightarrow> int" where
  "sql_count_distinct xs = int (length (remdups xs))"

definition fetchone :: "'a list \<Rightarrow> 'a option" where
  "fetchone xs = (case xs of [] \<Rightarrow> None | x # _ \<Rightarrow> Some x)"

subsection \<open>save_analysis\<close>

text \<open>
  The \<^verbatim>\<open>INSERT\<close> names neither \<^verbatim>\<open>id\<close> nor \<^verbatim>\<open>analyzed_at\<close>. \<^verbatim>\<open>AUTOINCREMENT\<close> gives the row
  an id one above the largest id the table has ever held, and fails when that id is the
  largest 64-bit integer; the function then returns \<^verbatim>\<open>False\<close> and the table is unchanged.
\<close>

definition max_rowid :: int where
  "max_rowid = 9223372036854775807"

definition largest_rowid :: "database \<Rightarrow> int" where
  "largest_rowid db = fold max (map row_id (nutrition_history db)) (sqlite_sequence db)"

definition new_row :: "int \<Rightarrow> timestamp \<Rightarrow> int \<Rightarrow> string \<Rightarrow> NutritionInfo \<Rightarrow> string \<Rightarrow> history_row" where
  "new_row i t uid uname nutrition_info photo =
     \<lparr>food_name = food_name nutrition_info, calories = calories nutrition_info,
      protein_g = protein_g nutrition_info, carbs_g = carbs_g nutrition_info,
      fats_g = fats_g nutrition_info, fiber_g = fiber_g nutrition_info,
      serving_size = serving_size nutrition_info, confidence = confidence nutrition_info,
      row_id = i, user_id = uid, username = uname, analyzed_at = t, photo_file_id = photo\<rparr>"

definition save_analysis ::
  "database \<Rightarrow> datetime \<Rightarrow> int \<Rightarrow> string \<Rightarrow> NutritionInfo \<Rightarrow> string \<Rightarrow> database \<times> bool" where
  "save_analysis db now uid uname nutrition_info photo =
     (if max_rowid \<le> largest_rowid db then (db, False)
      else
        let i = largest_rowid db + 1;
            r = new_row i (CURRENT_TIMESTAMP now) uid uname nutrition_info photo
        in (\<lparr>nutrition_history = nutrition_history db @ [r], sqlite_sequence = i\<rparr>, True))"

subsection \<open>get_user_history\<close>

text \<open>
  \<^verbatim>\<open>cutoff_date = datetime.utcnow() - timedelta(days=days)\<close>, then
  \<^verbatim>\<open>SELECT * FROM nutrition_history WHERE user_id = ? AND analyzed_at >= ?
  ORDER BY analyzed_at DESC LIMIT ?\<close> with the user, the cutoff and the limit.
\<close>

definition get_user_history ::
  "(history_row list \<Rightarrow> history_row list) \<Rightarrow> database \<Rightarrow> datetime \<Rightarrow> int \<Rightarrow> int \<Rightarrow> int
    \<Rightarrow> history_row list" where
  "get_user_history scan db now uid days limit =
     (let cutoff_date = now - timedelta_days days
      in sql_limit limit
           (order_by_desc scan analyzed_at
              (filter (\<lambda>r. user_id r = uid \<and> cutoff_date \<le> analyzed_at r * 1000000)
                 (nutrition_history db))))"

subsection \<open>get_daily_summary\<close>

text \<open>
  The date is the argument or, without one, the UTC date of today. The query selects
  \<^verbatim>\<open>DATE(analyzed_at)\<close>, \<^verbatim>\<open>COUNT(*)\<close> and the \<^verbatim>\<open>SUM\<close> of each of the five macros
  \<^verbatim>\<open>FROM nutrition_history WHERE user_id = ? AND DATE(analyzed_at) = ?
  GROUP BY DATE(analyzed_at)\<close>; the function returns the first row of the result as a dict,
  or \<^verbatim>\<open>None\<close> when there is no row.
\<close>

record daily_summary =
  date :: date
  meal_count :: int
  total_calories :: real
  total_protein_g :: real
  total_carbs_g :: real
  total_fats_g :: real
  total_fiber_g :: real

definition daily_totals :: "date \<times> history_row list \<Rightarrow> daily_summary" where
  "daily_totals g =
     \<lparr>date = fst g,
      meal_count = sql_count (snd g),
      total_calories = sql_sum (map calories (snd g)),
      total_protein_g = sql_sum (map protein_g (snd g)),
      total_carbs_g = sql_sum (map carbs_g (snd g)),
      total_fats_g = sql_sum (map fats_g (snd g)),
      total_fiber_g = sql_sum (map fiber_g (snd g))\<rparr>"

definition get_daily_summary :: "database \<Rightarrow> datetime \<Rightarrow> int \<Rightarrow> date option \<Rightarrow> daily_summary option" where
  "get_daily_summary db now uid date_arg =
     (let d = (case date_arg of None \<Rightarrow> utc_date now | Some x \<Rightarrow> x)
      in fetchone
           (map daily_totals
              (group_by (\<lambda>r. DATE (analyzed_at r))
                 (filter (\<lambda>r. user_id r = uid \<and> DATE (analyzed_at r) = d)
                    (nutrition_history db)))))"

subsection \<open>get_weekly_stats and get_all_time_stats\<close>

text \<open>
  Both functions run an aggregate query without \<^verbatim>\<open>GROUP BY\<close>, which always has one row, and
  then \<^verbatim>\<open>SELECT food_name, COUNT(*) as count ... GROUP BY food_name ORDER BY count DESC
  LIMIT n\<close> over the same rows, with \<open>n = 1\<close> for the week and \<open>n = 3\<close> for all time. They
  return the statistics when \<^verbatim>\<open>total_analyses\<close> is positive and \<^verbatim>\<open>None\<close> otherwise. The week
  starts at \<^verbatim>\<open>today - timedelta(days=today.weekday())\<close>, and its rows are those of the user
  with \<^verbatim>\<open>DATE(analyzed_at) >= start_date\<close>.
\<close>

definition food_counts :: "history_row list \<Rightarrow> (string \<times> int) list" where
  "food_counts rs = map (\<lambda>g. (fst g, sql_count (snd g))) (group_by food_name rs)"

definition top_foods_query ::
  "((string \<times> int) list \<Rightarrow> (string \<times> int) list) \<Rightarrow> int \<Rightarrow> history_row list \<Rightarrow> (string \<times> int) list" where
  "top_foods_query scan n rs = sql_limit n (order_by_desc scan snd (food_counts rs))"

record avg_stats =
  total_analyses :: int
  avg_calories :: "real option"
  avg_protein :: "real option"
  avg_carbs :: "real option"
  avg_fats :: "real option"

record weekly_stats = avg_stats +
  avg_fiber :: "real option"
  start_date :: "date option"
  end_date :: "date option"
  most_common_food :: "string option"

record all_time_stats = avg_stats +
  first_analysis :: "date option"
  days_tracked :: int
  top_foods :: "(string \<times> int) list"

definition week_rows :: "database \<Rightarrow> datetime \<Rightarrow> int \<Rightarrow> history_row list" where
  "week_rows db now uid =
     (let today = utc_date now; start_of_week = today - weekday today
      in filter (\<lambda>r. user_id r = uid \<and> start_of_week \<le> DATE (analyzed_at r)) (nutrition_history db))"

definition get_weekly_stats ::
  "((string \<times> int) list \<Rightarrow> (string \<times> int) list) \<Rightarrow> database \<Rightarrow> datetime \<Rightarrow> int \<Rightarrow> weekly_stats option" where
  "get_weekly_stats scan db now uid =
     (let rs = week_rows db now uid;
          stats = \<lparr>total_analyses = sql_count rs,
                   avg_calories = sql_avg (map calories rs),
                   avg_protein = sql_avg (map protein_g rs),
                   avg_carbs = sql_avg (map carbs_g rs),
                   avg_fats = sql_avg (map fats_g rs),
                   avg_fiber = sql_avg (map fiber_g rs),
                   start_date = sql_min (map (\<lambda>r. DATE (analyzed_at r)) rs),
                   end_date = sql_max (map (\<lambda>r. DATE (analyzed_at r)) rs),
                   most_common_food = map_option fst (fetchone (top_foods_query scan 1 rs))\<rparr>
      in if 0 < total_analyses stats then Some stats else None)"

definition user_rows :: "database \<Rightarrow> int \<Rightarrow> history_row list" where
  "user_rows db uid = filter (\<lambda>r. user_id r = uid) (nutrition_history db)"

definition get_all_time_stats ::
  "((string \<times> int) list \<Rightarrow> (string \<times> int) list) \<Rightarrow> database \<Rightarrow> int \<Rightarrow> all_time_stats option" where
  "get_all_time_stats scan db uid =
     (let rs = user_rows db uid;
          stats = \<lparr>total_analyses = sql_count rs,
                   avg_calories = sql_avg (map calories rs),
                   avg_protein = sql_avg (map protein_g rs),
                   avg_carbs = sql_avg (map carbs_g rs),
                   avg_fats = sql_avg (map fats_g rs),
                   first_analysis = sql_min (map (\<lambda>r. DATE (analyzed_at r)) rs),
                   days_tracked = sql_count_distinct (map (\<lambda>r. DATE (analyzed_at r)) rs),
                   top_foods = top_foods_query scan 3 rs\<rparr>
      in if 0 < total_analyses stats then Some stats else None)"

section \<open>The history command of the frontend (bot.py)\<close>

text \<open>
  \<^verbatim>\<open>cmd_history\<close> reads the optional argument of the command: \<^verbatim>\<open>parts[1]\<close> is absent, or
  \<^verbatim>\<open>int\<close> rejects it with a \<^verbatim>\<open>ValueError\<close>, or it is an integer. The number of days is then
  clamped, and the store is asked with that number and no \<^verbatim>\<open>limit\<close> argument, so with the
  default of 20.
\<close>

datatype days_arg = NoArg | BadInt | IntArg int

definition history_days :: "days_arg \<Rightarrow> int" where
  "history_days a =
     (case a of
        NoArg \<Rightarrow> max 1 (min 1 30)
      | IntArg d \<Rightarrow> max 1 (min d 30)
      | BadInt \<Rightarrow> 1)"

definition default_limit :: int where
  "default_limit = 20"

definition cmd_history ::
  "(history_row list \<Rightarrow> history_row list) \<Rightarrow> database \<Rightarrow> datetime \<Rightarrow> int \<Rightarrow> days_arg
    \<Rightarrow> history_row list" where
  "cmd_history scan db now uid a = get_user_history scan db now uid (history_days a) default_limit"

section \<open>The image analysis client (openai_client.py)\<close>

subsection \<open>What the client receives\<close>

text \<open>
  A value that \<^verbatim>\<open>json.loads\<close> returns: \<^verbatim>\<open>None\<close>, a bool, a number, a text, a list or a
  dict. A dict is the list of its items; its keys are distinct, and a key is looked up with
  \<^const>\<open>map_of\<close>.
\<close>

datatype json =
  JNull
  | JBool bool
  | JNumber real
  | JString string
  | JArray "json list"
  | JObject "(string \<times> json) list"

text \<open>
  The text of a reply is represented by what \<^verbatim>\<open>json.loads\<close> makes of it: it raises
  \<^verbatim>\<open>JSONDecodeError\<close>, or it returns a value. The request itself either raises an exception,
  given by its text, or returns a message whose content is \<^verbatim>\<open>None\<close> or a text.
\<close>

datatype content = NotJSON | Loads json

datatype completion = Raised string | Content "content option"

text \<open>
  The exceptions that the code between the request and the \<^verbatim>\<open>return\<close> statements can raise,
  each with the value that caused it. All but the last are \<^verbatim>\<open>TypeError\<close>s of the interpreter;
  the last is the \<^verbatim>\<open>ValidationError\<close> of \<^verbatim>\<open>ErrorResponse(error=...)\<close>.
\<close>

datatype py_exception =
  ApiError string
  | LoadsTypeError
  | ContainsTypeError json
  | SubscriptTypeError json
  | MappingTypeError json
  | ErrorResponseInvalid json

text \<open>
  What the libraries decide and the repository does not: which values pydantic takes for a
  field declared \<^verbatim>\<open>str\<close> and for one declared \<^verbatim>\<open>float\<close>, with the value the field then
  holds, and the text \<^verbatim>\<open>str(e)\<close> of an exception of the interpreter or of pydantic.
\<close>

record runtime =
  validate_str :: "json \<Rightarrow> string option"
  validate_float :: "json \<Rightarrow> real option"
  interpreter_text :: "py_exception \<Rightarrow> string"

datatype analysis = NutritionResult NutritionInfo | ErrorResponse string

subsection \<open>Python on the loaded value\<close>

text \<open>\<^verbatim>\<open>sub in s\<close> for two texts: \<open>sub\<close> occurs in \<open>s\<close> as a contiguous piece.\<close>

fun str_contains :: "string \<Rightarrow> string \<Rightarrow> bool" where
  "str_contains sub [] = (sub = [])"
| "str_contains sub (c # cs) = (take (length sub) (c # cs) = sub \<or> str_contains sub cs)"

text \<open>
  \<^verbatim>\<open>"error" in data\<close>: a key of a dict, an element of a list, a piece of a text; any other
  value is not a container.
\<close>

definition contains_error :: "json \<Rightarrow> py_exception + bool" where
  "contains_error data =
     (case data of
        JObject items \<Rightarrow> Inr (''error'' \<in> set (map fst items))
      | JArray xs \<Rightarrow> Inr (JString ''error'' \<in> set xs)
      | JString s \<Rightarrow> Inr (str_contains ''error'' s)
      | JNumber x \<Rightarrow> Inl (ContainsTypeError data)
      | JBool b \<Rightarrow> Inl (ContainsTypeError data)
      | JNull \<Rightarrow> Inl (ContainsTypeError data))"

text \<open>\<^verbatim>\<open>data["error"]\<close>, evaluated only after \<^verbatim>\<open>"error" in data\<close> was true.\<close>

definition subscript_error :: "json \<Rightarrow> py_exception + json" where
  "subscript_error data =
     (case data of
        JObject items \<Rightarrow>
          (case map_of items ''error'' of
             Some v \<Rightarrow> Inr v
           | None \<Rightarrow> Inl (SubscriptTypeError data))
      | JArray xs \<Rightarrow> Inl (SubscriptTypeError data)
      | JString s \<Rightarrow> Inl (SubscriptTypeError data)
      | JNumber x \<Rightarrow> Inl (SubscriptTypeError data)
      | JBool b \<Rightarrow> Inl (SubscriptTypeError data)
      | JNull \<Rightarrow> Inl (SubscriptTypeError data))"

subsection \<open>The pydantic models\<close>

text \<open>
  A required field: the key must be there and its value must pass the validator of the
  declared type. The model declares nothing else about a field (its \<^verbatim>\<open>Field(...)\<close> has a
  description only), and keys that are no fields are ignored.
\<close>

definition required :: "(json \<Rightarrow> 'a option) \<Rightarrow> (string \<times> json) list \<Rightarrow> string \<Rightarrow> 'a option" where
  "required validate items name =
     (case map_of items name of
        None \<Rightarrow> None
      | Some v \<Rightarrow> validate v)"

definition NutritionInfo_init :: "runtime \<Rightarrow> (string \<times> json) list \<Rightarrow> NutritionInfo option" where
  "NutritionInfo_init rt items =
     Option.bind (required (validate_str rt) items ''food_name'') (\<lambda>name.
     Option.bind (required (validate_float rt) items ''calories'') (\<lambda>kcal.
     Option.bind (required (validate_float rt) items ''protein_g'') (\<lambda>protein.
     Option.bind (required (validate_float rt) items ''carbs_g'') (\<lambda>carbs.
     Option.bind (required (validate_float rt) items ''fats_g'') (\<lambda>fats.
     Option.bind (required (validate_float rt) items ''fiber_g'') (\<lambda>fiber.
     Option.bind (required (validate_str rt) items ''serving_size'') (\<lambda>serving.
     Option.bind (required (validate_str rt) items ''confidence'') (\<lambda>conf.
       Some \<lparr>food_name = name, calories = kcal, protein_g = protein, carbs_g = carbs,
             fats_g = fats, fiber_g = fiber, serving_size = serving, confidence = conf\<rparr>))))))))"

text \<open>\<^verbatim>\<open>NutritionInfo(**data)\<close>: unpacking needs a mapping; pydantic then validates the fields.\<close>

definition NutritionInfo_kwargs :: "runtime \<Rightarrow> json \<Rightarrow> py_exception + NutritionInfo option" where
  "NutritionInfo_kwargs rt data =
     (case data of
        JObject items \<Rightarrow> Inr (NutritionInfo_init rt items)
      | JArray xs \<Rightarrow> Inl (MappingTypeError data)
      | JString s \<Rightarrow> Inl (MappingTypeError data)
      | JNumber x \<Rightarrow> Inl (MappingTypeError data)
      | JBool b \<Rightarrow> Inl (MappingTypeError data)
      | JNull \<Rightarrow> Inl (MappingTypeError data))"

subsection \<open>analyze_food_image\<close>

definition parse_failed :: string where
  "parse_failed = ''Failed to parse nutrition data. Please try again.''"

definition invalid_format :: string where
  "invalid_format = ''Invalid nutrition data format. Please try again.''"

definition exception_text :: "runtime \<Rightarrow> py_exception \<Rightarrow> string" where
  "exception_text rt e =
     (case e of
        ApiError msg \<Rightarrow> msg
      | LoadsTypeError \<Rightarrow> interpreter_text rt e
      | ContainsTypeError v \<Rightarrow> interpreter_text rt e
      | SubscriptTypeError v \<Rightarrow> interpreter_text rt e
      | MappingTypeError v \<Rightarrow> interpreter_text rt e
      | ErrorResponseInvalid v \<Rightarrow> interpreter_text rt e)"

text \<open>
  The body of the outer \<^verbatim>\<open>try\<close>: it returns at one of its four \<^verbatim>\<open>return\<close> statements, or
  an exception leaves it. The two inner \<^verbatim>\<open>try\<close> blocks catch \<^verbatim>\<open>JSONDecodeError\<close> around
  \<^verbatim>\<open>json.loads\<close> and \<^verbatim>\<open>ValidationError\<close> around \<^verbatim>\<open>NutritionInfo(**data)\<close>, and nothing else.
\<close>

definition analyze_body :: "runtime \<Rightarrow> completion \<Rightarrow> py_exception + analysis" where
  "analyze_body rt outcome =
     (case outcome of
        Raised msg \<Rightarrow> Inl (ApiError msg)
      | Content None \<Rightarrow> Inl LoadsTypeError
      | Content (Some NotJSON) \<Rightarrow> Inr (ErrorResponse parse_failed)
      | Content (Some (Loads data)) \<Rightarrow>
          (case contains_error data of
             Inl e \<Rightarrow> Inl e
           | Inr True \<Rightarrow>
               (case subscript_error data of
                  Inl e \<Rightarrow> Inl e
                | Inr v \<Rightarrow>
                    (case validate_str rt v of
                       None \<Rightarrow> Inl (ErrorResponseInvalid v)
                     | Some msg \<Rightarrow> Inr (ErrorResponse msg)))
           | Inr False \<Rightarrow>
               (case NutritionInfo_kwargs rt data of
                  Inl e \<Rightarrow> Inl e
                | Inr None \<Rightarrow> Inr (ErrorResponse invalid_format)
                | Inr (Some nutrition_info) \<Rightarrow> Inr (NutritionResult nutrition_info))))"

text \<open>The outer \<^verbatim>\<open>except Exception\<close> turns every exception into an error response.\<close>

definition analyze_food_image :: "runtime \<Rightarrow> completion \<Rightarrow> analysis" where
  "analyze_food_image rt outcome =
     (case analyze_body rt outcome of
        Inl e \<Rightarrow> ErrorResponse (''Failed to analyze image: '' @ exception_text rt e)
      | Inr result \<Rightarrow> result)"

section \<open>Notions used to state the properties\<close>

text \<open>The number of rows of a list that carry a given food name.\<close>

definition occurrences :: "string \<Rightarrow> history_row list \<Rightarrow> int" where
  "occurrences n rs = int (length (filter (\<lambda>r. food_name r = n) rs))"

text \<open>
  The fields of \<^verbatim>\<open>NutritionInfo\<close> by declared type, and a field that is present with a
  value its validator takes.
\<close>

definition str_fields :: "string list" where
  "str_fields = [''food_name'', ''serving_size'', ''confidence'']"

definition float_fields :: "string list" where
  "float_fields = [''calories'', ''protein_g'', ''carbs_g'', ''fats_g'', ''fiber_g'']"

definition accepted :: "(json \<Rightarrow> 'a option) \<Rightarrow> (string \<times> json) list \<Rightarrow> string \<Rightarrow> bool" where
  "accepted validate items name = (required validate items name \<noteq> None)"

section \<open>Stores, replies and records used as concrete inputs\<close>

text \<open>
  The stores below are read at the time 1700000000 s, a Tuesday (2023-11-14, day 19675 of the
  epoch); the week began on day 19674. All records are of one kind, with a name and calories
  of their own.
\<close>

definition meal :: "string \<Rightarrow> real \<Rightarrow> NutritionInfo" where
  "meal name kcal =
     \<lparr>food_name = name, calories = kcal, protein_g = 10, carbs_g = 20, fats_g = 5,
      fiber_g = 2, serving_size = ''1 plate'', confidence = ''high''\<rparr>"

definition stored :: "int \<Rightarrow> int \<Rightarrow> timestamp \<Rightarrow> NutritionInfo \<Rightarrow> history_row" where
  "stored i uid t nutrition_info = new_row i t uid ''alice'' nutrition_info ''photo''"

definition history_scenario :: database where
  "history_scenario =
     fst (save_analysis
            (fst (save_analysis init 1699910000000000 7 ''alice'' (meal ''Soup'' 250) ''photo''))
            1699992800000000 7 ''alice'' (meal ''Salad'' 120) ''photo'')"

definition busy_day :: database where
  "busy_day =
     \<lparr>nutrition_history = map (\<lambda>i. stored i 7 (1699990000 + i) (meal ''Snack'' 50)) [1..21],
      sqlite_sequence = 21\<rparr>"

definition daily_scenario :: database where
  "daily_scenario =
     fst (save_analysis
       (fst (save_analysis
         (fst (save_analysis init 1699950000000000 7 ''alice'' (meal ''Soup'' 200) ''photo''))
         1699960000000000 7 ''alice'' (meal ''Rice'' 300) ''photo''))
       1699970000000000 7 ''alice'' (meal ''Cake'' 500) ''photo'')"

definition weekly_scenario :: database where
  "weekly_scenario =
     \<lparr>nutrition_history =
        [stored 1 7 1699840000 (meal ''Apple'' 100), stored 2 7 1699850000 (meal ''Apple'' 200),
         stored 3 7 1699860000 (meal ''Banana'' 300), stored 4 7 1699950000 (meal ''Apple'' 1000),
         stored 5 8 1699950000 (meal ''Cake'' 500), stored 6 7 1699000000 (meal ''Stew'' 700)],
      sqlite_sequence = 6\<rparr>"

definition tie_scenario :: database where
  "tie_scenario =
     \<lparr>nutrition_history =
        [stored 1 7 1699940000 (meal ''Banana'' 100), stored 2 7 1699950000 (meal ''Apple'' 50)],
      sqlite_sequence = 2\<rparr>"

definition fiber_scenario :: "real \<Rightarrow> database" where
  "fiber_scenario fiber =
     \<lparr>nutrition_history =
        [stored 1 7 1699840000 ((meal ''Apple'' 100)\<lparr>fiber_g := fiber\<rparr>),
         stored 2 7 1699950000 ((meal ''Stew'' 700)\<lparr>fiber_g := fiber\<rparr>)],
      sqlite_sequence = 2\<rparr>"

text \<open>
  A runtime for concrete replies: a \<^verbatim>\<open>str\<close> field takes a JSON text and a \<^verbatim>\<open>float\<close> field a
  JSON number, each unchanged, as pydantic does in every mode; other values are rejected.
\<close>

definition json_runtime :: runtime where
  "json_runtime =
     \<lparr>validate_str = (\<lambda>v. case v of JString s \<Rightarrow> Some s | _ \<Rightarrow> None),
      validate_float = (\<lambda>v. case v of JNumber x \<Rightarrow> Some x | _ \<Rightarrow> None),
      interpreter_text = (\<lambda>e. ''exception'')\<rparr>"

text \<open>Replies: a list of two foods, and the items of six objects.\<close>

definition several_foods :: json where
  "several_foods =
     JArray [JObject [(''food_name'', JString ''Rice''), (''calories'', JNumber 200)],
             JObject [(''food_name'', JString ''Beans''), (''calories'', JNumber 150)]]"

definition negative_meal :: "(string \<times> json) list" where
  "negative_meal =
     [(''food_name'', JString ''''), (''calories'', JNumber (- 5)), (''protein_g'', JNumber 1),
      (''carbs_g'', JNumber 2), (''fats_g'', JNumber 3), (''fiber_g'', JNumber 4),
      (''serving_size'', JString ''''), (''confidence'', JString ''banana'')]"

definition soup_fields :: "(string \<times> json) list" where
  "soup_fields =
     [(''food_name'', JString ''Soup''), (''calories'', JNumber 250), (''protein_g'', JNumber 10),
      (''carbs_g'', JNumber 20), (''fats_g'', JNumber 5), (''fiber_g'', JNumber 2),
      (''serving_size'', JString ''1 plate''), (''confidence'', JString ''high'')]"

definition not_food :: "(string \<times> json) list" where
  "not_food = [(''error'', JString ''The image shows a car, not food.'')]"

definition food_with_error :: "(string \<times> json) list" where
  "food_with_error = (''error'', JString ''Estimate may be off.'') # soup_fields"

definition incomplete_meal :: "(string \<times> json) list" where
  "incomplete_meal =
     [(''food_name'', JString ''Soup''), (''calories'', JNumber 250), (''protein_g'', JNumber 10),
      (''carbs_g'', JNumber 20), (''fats_g'', JNumber 5), (''fiber_g'', JNumber 2),
      (''serving_size'', JString ''1 plate'')]"

definition ill_typed_meal :: "(string \<times> json) list" where
  "ill_typed_meal =
     [(''food_name'', JString ''Soup''), (''calories'', JArray []), (''protein_g'', JNumber 10),
      (''carbs_g'', JNumber 20), (''fats_g'', JNumber 5), (''fiber_g'', JNumber 2),
      (''serving_size'', JString ''1 plate''), (''confidence'', JString ''high'')]"

section \<open>Auxiliary facts\<close>

lemma order_by_desc_mset: "rearranges scan \<Longrightarrow> mset (order_by_desc scan k xs) = mset xs"
  by (simp add: rearranges_def order_by_desc_def)

lemma order_by_desc_set: "rearranges scan \<Longrightarrow> set (order_by_desc scan k xs) = set xs"
  using order_by_desc_mset [of scan k xs] by (metis set_mset_mset)

lemma order_by_desc_sorted: "sorted_wrt (\<lambda>a b. k b \<le> k a) (order_by_desc scan k xs)"
proof -
  have "sorted (map (\<lambda>x. - k x) (order_by_desc scan k xs))"
    by (simp add: order_by_desc_def)
  then show ?thesis
    by (simp add: sorted_map)
qed

lemma sql_limit_subset: "set (sql_limit n xs) \<subseteq> set xs"
  by (auto simp: sql_limit_def dest: in_set_takeD)

lemma sql_limit_length: "0 \<le> n \<Longrightarrow> length (sql_limit n xs) \<le> nat n"
  by (simp add: sql_limit_def)

lemma sql_limit_sorted_wrt: "sorted_wrt P xs \<Longrightarrow> sorted_wrt P (sql_limit n xs)"
  by (simp add: sql_limit_def sorted_wrt_take)

lemma fold_max_ge: "(a::int) \<le> fold max xs a"
  by (induction xs arbitrary: a) (auto intro: order_trans [OF max.cobounded2])

lemma fold_max_mem: "x \<in> set xs \<Longrightarrow> (x::int) \<le> fold max xs a"
proof (induction xs arbitrary: a)
  case Nil
  then show ?case by simp
next
  case (Cons y ys)
  then show ?case
    using fold_max_ge [of "max y a" ys] by auto
qed

lemma fold_max_absorb: "\<forall>x\<in>set xs. x \<le> a \<Longrightarrow> fold max xs (a::int) = a"
  by (induction xs) (auto simp: max_def)

lemma remdups_const: "xs \<noteq> [] \<Longrightarrow> \<forall>x\<in>set xs. x = v \<Longrightarrow> remdups xs = [v]"
proof (induction xs)
  case Nil
  then show ?case by simp
next
  case (Cons y ys)
  then show ?case by (cases ys) auto
qed

lemma group_by_single:
  assumes "xs \<noteq> []" and "\<forall>x\<in>set xs. k x = v"
  shows "group_by k xs = [(v, xs)]"
proof -
  have "remdups (map k xs) = [v]"
    using assms by (intro remdups_const) auto
  moreover have "filter (\<lambda>x. k x = v) xs = xs"
    using assms by (simp add: filter_id_conv)
  ultimately show ?thesis
    by (simp add: group_by_def)
qed

lemma new_row_sel [simp]:
  "row_id (new_row i t uid uname nutrition_info photo) = i"
  "user_id (new_row i t uid uname nutrition_info photo) = uid"
  "analyzed_at (new_row i t uid uname nutrition_info photo) = t"
  "food_name (new_row i t uid uname nutrition_info photo) = food_name nutrition_info"
  "calories (new_row i t uid uname nutrition_info photo) = calories nutrition_info"
  "protein_g (new_row i t uid uname nutrition_info photo) = protein_g nutrition_info"
  "carbs_g (new_row i t uid uname nutrition_info photo) = carbs_g nutrition_info"
  "fats_g (new_row i t uid uname nutrition_info photo) = fats_g nutrition_info"
  "fiber_g (new_row i t uid uname nutrition_info photo) = fiber_g nutrition_info"
  by (simp_all add: new_row_def)

lemma meal_sel [simp]:
  "food_name (meal name kcal) = name"
  "calories (meal name kcal) = kcal"
  "protein_g (meal name kcal) = 10"
  "carbs_g (meal name kcal) = 20"
  "fats_g (meal name kcal) = 5"
  "fiber_g (meal name kcal) = 2"
  by (simp_all add: meal_def)

lemma history_scenario_rows:
  "nutrition_history history_scenario =
     [stored 1 7 1699910000 (meal ''Soup'' 250), stored 2 7 1699992800 (meal ''Salad'' 120)]"
  by (simp add: history_scenario_def save_analysis_def init_def largest_rowid_def max_rowid_def
      CURRENT_TIMESTAMP_def stored_def Let_def)

lemma largest_rowid_fresh: "r \<in> set (nutrition_history db) \<Longrightarrow> row_id r < largest_rowid db + 1"
  using fold_max_mem [of "row_id r" "map row_id (nutrition_history db)" "sqlite_sequence db"]
  by (simp add: largest_rowid_def)

lemma largest_rowid_after:
  "largest_rowid \<lparr>nutrition_history = nutrition_history db @ [r], sqlite_sequence = largest_rowid db + 1\<rparr>
     = max (row_id r) (largest_rowid db + 1)"
proof -
  have "\<forall>x\<in>set (map row_id (nutrition_history db)). x \<le> largest_rowid db + 1"
    using largest_rowid_fresh [of _ db] by fastforce
  then have "fold max (map row_id (nutrition_history db)) (largest_rowid db + 1) = largest_rowid db + 1"
    by (rule fold_max_absorb)
  then show ?thesis
    by (simp add: largest_rowid_def)
qed

lemma save_analysis_ok:
  assumes "largest_rowid db < max_rowid"
  shows "save_analysis db now uid uname nutrition_info photo =
     (\<lparr>nutrition_history = nutrition_history db
          @ [new_row (largest_rowid db + 1) (CURRENT_TIMESTAMP now) uid uname nutrition_info photo],
       sqlite_sequence = largest_rowid db + 1\<rparr>, True)"
  using assms by (simp add: save_analysis_def Let_def)

lemma fetchone_single [simp]: "fetchone [x] = Some x" "fetchone [] = None"
  by (simp_all add: fetchone_def)

lemma daily_scenario_rows:
  "nutrition_history daily_scenario =
     [stored 1 7 1699950000 (meal ''Soup'' 200), stored 2 7 1699960000 (meal ''Rice'' 300),
      stored 3 7 1699970000 (meal ''Cake'' 500)]"
  by (simp add: daily_scenario_def save_analysis_def init_def largest_rowid_def max_rowid_def
      CURRENT_TIMESTAMP_def stored_def Let_def)

lemma sql_avg_nonempty: "xs \<noteq> [] \<Longrightarrow> sql_avg (map f xs) = Some (sum_list (map f xs) / real (length xs))"
  by (simp add: sql_avg_def)

lemma sql_min_Min: "xs \<noteq> [] \<Longrightarrow> sql_min xs = Some (Min (set xs))"
  by (cases xs) (simp_all add: sql_min_def Min.set_eq_fold [symmetric])

lemma sql_max_Max: "xs \<noteq> [] \<Longrightarrow> sql_max xs = Some (Max (set xs))"
  by (cases xs) (simp_all add: sql_max_def Max.set_eq_fold [symmetric])

lemma sql_count_distinct_card: "sql_count_distinct xs = int (card (set xs))"
  by (simp add: sql_count_distinct_def length_remdups_card_conv)

lemma food_counts_eq:
  "food_counts rs = map (\<lambda>n. (n, occurrences n rs)) (remdups (map food_name rs))"
  by (simp add: food_counts_def group_by_def sql_count_def occurrences_def comp_def)

lemma food_counts_names: "map fst (food_counts rs) = remdups (map food_name rs)"
  by (simp add: food_counts_eq comp_def)

lemma food_counts_mem:
  "(n, c) \<in> set (food_counts rs) \<longleftrightarrow> n \<in> food_name ` set rs \<and> c = occurrences n rs"
  by (auto simp: food_counts_eq)

lemma occurrences_absent: "n \<notin> food_name ` set rs \<Longrightarrow> occurrences n rs = 0"
  by (auto simp: occurrences_def filter_empty_conv)

lemma occurrences_present: "n \<in> food_name ` set rs \<Longrightarrow> 0 < occurrences n rs"
  by (auto simp: occurrences_def filter_empty_conv)

lemma sorted_desc_take_drop:
  assumes "sorted_wrt (\<lambda>a b. k b \<le> (k a :: int)) xs" and "x \<in> set (take j xs)" and "y \<in> set (drop j xs)"
  shows "k y \<le> k x"
proof -
  have "sorted_wrt (\<lambda>a b. k b \<le> k a) (take j xs @ drop j xs)"
    using assms(1) by simp
  then show ?thesis
    using assms(2,3) unfolding sorted_wrt_append by blast
qed

lemma ranking_facts:
  assumes "rearranges scan"
  shows "mset (order_by_desc scan snd (food_counts rs)) = mset (food_counts rs)"
    and "set (order_by_desc scan snd (food_counts rs)) = set (food_counts rs)"
    and "distinct (map fst (order_by_desc scan snd (food_counts rs)))"
    and "length (order_by_desc scan snd (food_counts rs)) = card (food_name ` set rs)"
proof -
  let ?r = "order_by_desc scan snd (food_counts rs)"
  show m: "mset ?r = mset (food_counts rs)"
    using assms by (rule order_by_desc_mset)
  show "set ?r = set (food_counts rs)"
    using assms by (rule order_by_desc_set)
  have "mset (map fst ?r) = mset (map fst (food_counts rs))"
    using m by (metis mset_map)
  moreover have "distinct (map fst (food_counts rs))"
    by (simp add: food_counts_names)
  ultimately show "distinct (map fst ?r)"
    by (metis mset_eq_imp_distinct_iff)
  have "length ?r = length (food_counts rs)"
    using m by (metis size_mset)
  also have "\<dots> = length (remdups (map food_name rs))"
    by (simp add: food_counts_eq)
  also have "\<dots> = card (food_name ` set rs)"
    by (simp add: length_remdups_card_conv)
  finally show "length ?r = card (food_name ` set rs)" .
qed

lemma top_foods_query_facts:
  assumes "rearranges scan" and "0 \<le> j"
  shows "sorted_wrt (\<lambda>a b. snd b \<le> snd a) (top_foods_query scan j rs)"
    and "distinct (map fst (top_foods_query scan j rs))"
    and "length (top_foods_query scan j rs) = min (nat j) (card (food_name ` set rs))"
    and "\<And>n c. (n, c) \<in> set (top_foods_query scan j rs)
          \<Longrightarrow> n \<in> food_name ` set rs \<and> c = occurrences n rs"
    and "\<And>n c m. (n, c) \<in> set (top_foods_query scan j rs) \<Longrightarrow> m \<notin> fst ` set (top_foods_query scan j rs)
          \<Longrightarrow> occurrences m rs \<le> c"
proof -
  let ?r = "order_by_desc scan snd (food_counts rs)"
  have q: "top_foods_query scan j rs = take (nat j) ?r"
    using assms(2) by (simp add: top_foods_query_def sql_limit_def)
  have s: "sorted_wrt (\<lambda>a b. snd b \<le> snd a) ?r"
    by (rule order_by_desc_sorted)
  show "sorted_wrt (\<lambda>a b. snd b \<le> snd a) (top_foods_query scan j rs)"
    unfolding q using s by (rule sorted_wrt_take)
  have d: "distinct (map fst ?r)"
    using assms(1) by (rule ranking_facts)
  then show "distinct (map fst (top_foods_query scan j rs))"
    unfolding q by (simp add: take_map [symmetric])
  show "length (top_foods_query scan j rs) = min (nat j) (card (food_name ` set rs))"
    unfolding q using ranking_facts(4) [OF assms(1), of rs] by simp
  show mem: "\<And>n c. (n, c) \<in> set (top_foods_query scan j rs)
          \<Longrightarrow> n \<in> food_name ` set rs \<and> c = occurrences n rs"
  proof -
    fix n c assume "(n, c) \<in> set (top_foods_query scan j rs)"
    then have "(n, c) \<in> set ?r"
      unfolding q by (rule in_set_takeD)
    then have "(n, c) \<in> set (food_counts rs)"
      using ranking_facts(2) [OF assms(1), of rs] by simp
    then show "n \<in> food_name ` set rs \<and> c = occurrences n rs"
      by (simp add: food_counts_mem)
  qed
  show "\<And>n c m. (n, c) \<in> set (top_foods_query scan j rs) \<Longrightarrow> m \<notin> fst ` set (top_foods_query scan j rs)
          \<Longrightarrow> occurrences m rs \<le> c"
  proof -
    fix n c m
    assume top: "(n, c) \<in> set (top_foods_query scan j rs)"
      and out: "m \<notin> fst ` set (top_foods_query scan j rs)"
    have c: "n \<in> food_name ` set rs" "c = occurrences n rs"
      using mem [OF top] by simp_all
    show "occurrences m rs \<le> c"
    proof (cases "m \<in> food_name ` set rs")
      case False
      then show ?thesis
        using occurrences_absent [of m rs] occurrences_present [OF c(1)] c(2) by simp
    next
      case True
      then have "(m, occurrences m rs) \<in> set (food_counts rs)"
        by (simp add: food_counts_mem)
      then have "(m, occurrences m rs) \<in> set (take (nat j) ?r @ drop (nat j) ?r)"
        using ranking_facts(2) [OF assms(1), of rs] by simp
      moreover have "(m, occurrences m rs) \<notin> set (take (nat j) ?r)"
        using out unfolding q by force
      ultimately have "(m, occurrences m rs) \<in> set (drop (nat j) ?r)"
        by (simp only: set_append Un_iff) blast
      with s top [unfolded q] have "snd (m, occurrences m rs) \<le> snd (n, c)"
        by (intro sorted_desc_take_drop [of snd ?r "(n, c)" "nat j" "(m, occurrences m rs)"])
      then show ?thesis by simp
    qed
  qed
qed

lemma stored_sel [simp]:
  "row_id (stored i uid t nutrition_info) = i"
  "user_id (stored i uid t nutrition_info) = uid"
  "analyzed_at (stored i uid t nutrition_info) = t"
  "food_name (stored i uid t nutrition_info) = food_name nutrition_info"
  "calories (stored i uid t nutrition_info) = calories nutrition_info"
  "protein_g (stored i uid t nutrition_info) = protein_g nutrition_info"
  "carbs_g (stored i uid t nutrition_info) = carbs_g nutrition_info"
  "fats_g (stored i uid t nutrition_info) = fats_g nutrition_info"
  "fiber_g (stored i uid t nutrition_info) = fiber_g nutrition_info"
  by (simp_all add: stored_def)

lemma weekly_scenario_rows:
  "week_rows weekly_scenario 1700000000000000 7 =
     [stored 1 7 1699840000 (meal ''Apple'' 100), stored 2 7 1699850000 (meal ''Apple'' 200),
      stored 3 7 1699860000 (meal ''Banana'' 300), stored 4 7 1699950000 (meal ''Apple'' 1000)]"
  by (simp add: week_rows_def weekly_scenario_def utc_date_def DATE_def CURRENT_TIMESTAMP_def
      weekday_def Let_def)

lemma rearranges_same: "rearranges (\<lambda>xs. xs)"
  by (simp add: rearranges_def)

lemma rearranges_rev: "rearranges rev"
  by (simp add: rearranges_def)

lemma tie_scenario_week: "week_rows tie_scenario 1700000000000000 7 = nutrition_history tie_scenario"
  by (simp add: week_rows_def tie_scenario_def utc_date_def DATE_def CURRENT_TIMESTAMP_def
      weekday_def Let_def)

lemma tie_scenario_user: "user_rows tie_scenario 7 = nutrition_history tie_scenario"
  by (simp add: user_rows_def tie_scenario_def)

lemma tie_scenario_counts:
  "food_counts (nutrition_history tie_scenario) = [(''Banana'', 1), (''Apple'', 1)]"
  by (simp add: food_counts_def group_by_def tie_scenario_def sql_count_def)

lemma weekly_scenario_user:
  "user_rows weekly_scenario 7 =
     [stored 1 7 1699840000 (meal ''Apple'' 100), stored 2 7 1699850000 (meal ''Apple'' 200),
      stored 3 7 1699860000 (meal ''Banana'' 300), stored 4 7 1699950000 (meal ''Apple'' 1000),
      stored 6 7 1699000000 (meal ''Stew'' 700)]"
  by (simp add: user_rows_def weekly_scenario_def)

lemma weekly_scenario_week_counts:
  "food_counts (week_rows weekly_scenario 1700000000000000 7) = [(''Banana'', 1), (''Apple'', 3)]"
  by (simp add: weekly_scenario_rows food_counts_def group_by_def sql_count_def)

lemma weekly_scenario_user_counts:
  "food_counts (user_rows weekly_scenario 7) = [(''Banana'', 1), (''Apple'', 3), (''Stew'', 1)]"
  by (simp add: weekly_scenario_user food_counts_def group_by_def sql_count_def)

lemma accepted_required: "accepted validate items name \<longleftrightarrow> required validate items name \<noteq> None"
  by (simp add: accepted_def)

lemma accepted_iff:
  "accepted validate items name \<longleftrightarrow> (\<exists>v x. map_of items name = Some v \<and> validate v = Some x)"
  by (auto simp: accepted_def required_def split: option.splits)

lemma contains_error_object:
  "contains_error (JObject items) = Inr (map_of items ''error'' \<noteq> None)"
  by (simp add: contains_error_def map_of_eq_None_iff)

lemma analyze_object:
  "analyze_food_image rt (Content (Some (Loads (JObject items)))) =
     (case map_of items ''error'' of
        Some v \<Rightarrow>
          (case validate_str rt v of
             Some msg \<Rightarrow> ErrorResponse msg
           | None \<Rightarrow> ErrorResponse (''Failed to analyze image: '' @ interpreter_text rt (ErrorResponseInvalid v)))
      | None \<Rightarrow>
          (case NutritionInfo_init rt items of
             Some nutrition_info \<Rightarrow> NutritionResult nutrition_info
           | None \<Rightarrow> ErrorResponse invalid_format))"
  by (simp add: analyze_food_image_def analyze_body_def contains_error_object subscript_error_def
      NutritionInfo_kwargs_def exception_text_def split: option.splits)

lemma NutritionInfo_init_None:
  "NutritionInfo_init rt items = None \<longleftrightarrow>
     required (validate_str rt) items ''food_name'' = None
   \<or> required (validate_float rt) items ''calories'' = None
   \<or> required (validate_float rt) items ''protein_g'' = None
   \<or> required (validate_float rt) items ''carbs_g'' = None
   \<or> required (validate_float rt) items ''fats_g'' = None
   \<or> required (validate_float rt) items ''fiber_g'' = None
   \<or> required (validate_str rt) items ''serving_size'' = None
   \<or> required (validate_str rt) items ''confidence'' = None"
  by (auto simp: NutritionInfo_init_def bind_eq_None_conv)

lemma NutritionInfo_init_Some:
  "NutritionInfo_init rt items = Some n \<longleftrightarrow>
     required (validate_str rt) items ''food_name'' = Some (food_name n)
   \<and> required (validate_float rt) items ''calories'' = Some (calories n)
   \<and> required (validate_float rt) items ''protein_g'' = Some (protein_g n)
   \<and> required (validate_float rt) items ''carbs_g'' = Some (carbs_g n)
   \<and> required (validate_float rt) items ''fats_g'' = Some (fats_g n)
   \<and> required (validate_float rt) items ''fiber_g'' = Some (fiber_g n)
   \<and> required (validate_str rt) items ''serving_size'' = Some (serving_size n)
   \<and> required (validate_str rt) items ''confidence'' = Some (confidence n)"
  by (cases n) (auto simp: NutritionInfo_init_def bind_eq_Some_conv)

lemma json_runtime_sel [simp]:
  "validate_str json_runtime (JString s) = Some s"
  "validate_float json_runtime (JNumber x) = Some x"
  by (simp_all add: json_runtime_def)

lemma busy_day_window:
  "filter (\<lambda>r. user_id r = 7 \<and> 1700000000000000 - timedelta_days 1 \<le> analyzed_at r * 1000000)
     (nutrition_history busy_day) = nutrition_history busy_day"
  by (simp add: busy_day_def timedelta_days_def filter_id_conv)

section \<open>The history command\<close>

text \<open>
  Claim C10. Whatever the user, the argument of the command and the rows in the store, the
  history command shows at most 20 records: it never passes a limit, and the query cuts its
  result at the default limit of 20. In the instance that follows, 21 rows of the user lie in
  the window of one day, and 20 are shown.
\<close>

theorem history_at_most_20: "length (cmd_history scan db now uid a) \<le> 20"
  by (simp add: cmd_history_def get_user_history_def default_limit_def sql_limit_def)

theorem history_at_most_20_witness:
  "length (filter (\<lambda>r. user_id r = 7 \<and> 1700000000000000 - timedelta_days 1 \<le> analyzed_at r * 1000000)
     (nutrition_history busy_day)) = 21
   \<and> length (cmd_history (\<lambda>xs. xs) busy_day 1700000000000000 7 NoArg) = 20"
proof -
  have n: "length (nutrition_history busy_day) = 21"
    by (simp add: busy_day_def)
  have "length (cmd_history (\<lambda>xs. xs) busy_day 1700000000000000 7 NoArg) = 20"
    by (simp add: cmd_history_def get_user_history_def history_days_def default_limit_def
        sql_limit_def order_by_desc_def busy_day_window n)
  then show ?thesis
    using history_at_most_20 [of "\<lambda>xs. xs" busy_day 1700000000000000 7 NoArg]
    by (simp add: busy_day_window n)
qed



section \<open>The store: appending\<close>



section \<open>The store: daily totals\<close>



section \<open>The store: weekly means\<close>



section \<open>The store: all-time statistics\<close>

text \<open>
  What the all-time statistics hold: nothing when the user has no stored row; otherwise the
  number of the user's rows, the mean of calories, protein, carbohydrates and fats over them,
  the earliest date, the number of distinct dates, and at most three foods, each with the
  number of the user's rows that carry its name. The record has no field for fiber.
\<close>

theorem all_time_stats_contents:
  "get_all_time_stats scan db uid =
     (let rs = filter (\<lambda>r. user_id r = uid) (nutrition_history db)
      in if rs = [] then None
         else Some \<lparr>total_analyses = int (length rs),
                avg_calories = Some (sum_list (map calories rs) / real (length rs)),
                avg_protein = Some (sum_list (map protein_g rs) / real (length rs)),
                avg_carbs = Some (sum_list (map carbs_g rs) / real (length rs)),
                avg_fats = Some (sum_list (map fats_g rs) / real (length rs)),
                first_analysis = Some (Min ((\<lambda>r. DATE (analyzed_at r)) ` set rs)),
                days_tracked = int (card ((\<lambda>r. DATE (analyzed_at r)) ` set rs)),
                top_foods = top_foods_query scan 3 rs\<rparr>)
   \<and> length (top_foods_query scan 3 (filter (\<lambda>r. user_id r = uid) (nutrition_history db))) \<le> 3
   \<and> (rearranges scan \<longrightarrow>
        (\<forall>(n, c) \<in> set (top_foods_query scan 3 (filter (\<lambda>r. user_id r = uid) (nutrition_history db))).
           c = occurrences n (filter (\<lambda>r. user_id r = uid) (nutrition_history db)) \<and> 0 < c))"
proof -
  let ?rs = "filter (\<lambda>r. user_id r = uid) (nutrition_history db)"
  have a: "get_all_time_stats scan db uid =
     (let rs = ?rs
      in if rs = [] then None
         else Some \<lparr>total_analyses = int (length rs),
                avg_calories = Some (sum_list (map calories rs) / real (length rs)),
                avg_protein = Some (sum_list (map protein_g rs) / real (length rs)),
                avg_carbs = Some (sum_list (map carbs_g rs) / real (length rs)),
                avg_fats = Some (sum_list (map fats_g rs) / real (length rs)),
                first_analysis = Some (Min ((\<lambda>r. DATE (analyzed_at r)) ` set rs)),
                days_tracked = int (card ((\<lambda>r. DATE (analyzed_at r)) ` set rs)),
                top_foods = top_foods_query scan 3 rs\<rparr>)"
  proof (cases "?rs = []")
    case True
    then show ?thesis
      by (simp add: get_all_time_stats_def user_rows_def Let_def sql_count_def)
  next
    case False
    then show ?thesis
      by (simp add: get_all_time_stats_def user_rows_def Let_def sql_count_def sql_avg_nonempty
          sql_min_Min sql_count_distinct_card)
  qed
  have b: "length (top_foods_query scan 3 ?rs) \<le> 3"
    by (simp add: top_foods_query_def sql_limit_def)
  have c: "rearranges scan \<longrightarrow>
        (\<forall>(n, c) \<in> set (top_foods_query scan 3 ?rs). c = occurrences n ?rs \<and> 0 < c)"
    using top_foods_query_facts(4) [where scan = scan and j = 3 and rs = ?rs] occurrences_present [of _ ?rs] by fastforce
  from a b c show ?thesis by blast
qed

theorem all_time_stats_contents_witness:
  "rearranges (\<lambda>gs :: (string \<times> int) list. gs)
   \<and> get_all_time_stats (\<lambda>gs. gs) weekly_scenario 7 =
       Some \<lparr>total_analyses = 5, avg_calories = Some 460, avg_protein = Some 10,
         avg_carbs = Some 20, avg_fats = Some 5, first_analysis = Some 19664, days_tracked = 3,
         top_foods = [(''Apple'', 3), (''Banana'', 1), (''Stew'', 1)]\<rparr>
   \<and> get_all_time_stats (\<lambda>gs. gs) weekly_scenario 9 = None"
proof -
  have t: "top_foods_query (\<lambda>gs. gs) 3 (user_rows weekly_scenario 7)
      = [(''Apple'', 3), (''Banana'', 1), (''Stew'', 1)]"
    by (simp add: top_foods_query_def weekly_scenario_user_counts order_by_desc_def sql_limit_def)
  have v: "get_all_time_stats (\<lambda>gs. gs) weekly_scenario 7 =
       Some \<lparr>total_analyses = 5, avg_calories = Some 460, avg_protein = Some 10,
         avg_carbs = Some 20, avg_fats = Some 5, first_analysis = Some 19664, days_tracked = 3,
         top_foods = [(''Apple'', 3), (''Banana'', 1), (''Stew'', 1)]\<rparr>"
    by (simp add: get_all_time_stats_def Let_def t)
      (simp add: weekly_scenario_user sql_count_def sql_avg_def sql_min_def sql_count_distinct_def
        DATE_def)
  have n: "get_all_time_stats (\<lambda>gs. gs) weekly_scenario 9 = None"
    by (simp add: get_all_time_stats_def user_rows_def weekly_scenario_def Let_def sql_count_def)
  show ?thesis
    using rearranges_same v n all_time_stats_contents [of "\<lambda>gs. gs" weekly_scenario 7]
    by blast
qed

text \<open>
  Claim C8. The claim lists the mean of fiber among the all-time statistics. The query of
  \<^verbatim>\<open>get_all_time_stats\<close> selects \<^verbatim>\<open>AVG\<close> of calories, protein, carbohydrates and fats and,
  unlike the query of \<^verbatim>\<open>get_weekly_stats\<close>, not of fiber. Two stores whose rows differ in
  fiber only, with fiber means 2 and 9, have the same all-time statistics, shown in full: the
  mean of fiber is not among them.
\<close>

theorem all_time_stats_without_fiber:
  "get_all_time_stats (\<lambda>gs. gs) (fiber_scenario 2) 7 = get_all_time_stats (\<lambda>gs. gs) (fiber_scenario 9) 7
   \<and> get_all_time_stats (\<lambda>gs. gs) (fiber_scenario 2) 7 =
       Some \<lparr>total_analyses = 2, avg_calories = Some 400, avg_protein = Some 10,
         avg_carbs = Some 20, avg_fats = Some 5, first_analysis = Some 19674, days_tracked = 2,
         top_foods = [(''Apple'', 1), (''Stew'', 1)]\<rparr>
   \<and> sql_avg (map fiber_g (user_rows (fiber_scenario 2) 7)) = Some 2
   \<and> sql_avg (map fiber_g (user_rows (fiber_scenario 9) 7)) = Some 9"
proof -
  have v: "get_all_time_stats (\<lambda>gs. gs) (fiber_scenario f) 7 =
       Some \<lparr>total_analyses = 2, avg_calories = Some 400, avg_protein = Some 10,
         avg_carbs = Some 20, avg_fats = Some 5, first_analysis = Some 19674, days_tracked = 2,
         top_foods = [(''Apple'', 1), (''Stew'', 1)]\<rparr>" for f
    by (simp add: get_all_time_stats_def user_rows_def fiber_scenario_def Let_def sql_count_def
        sql_avg_def sql_min_def sql_count_distinct_def DATE_def top_foods_query_def food_counts_def
        group_by_def order_by_desc_def sql_limit_def stored_def new_row_def meal_def)
  have f: "sql_avg (map fiber_g (user_rows (fiber_scenario f) 7)) = Some f" for f
    by (simp add: user_rows_def fiber_scenario_def sql_avg_def stored_def new_row_def meal_def)
  show ?thesis
    using v [of 2] v [of 9] f [of 2] f [of 9] by simp
qed

section \<open>The store: ranking of foods\<close>

text \<open>
  The queries order the foods by \<^verbatim>\<open>count DESC\<close> and by nothing else. With one row of
  Banana and one of Apple, an engine that delivers the groups as they stand answers Banana,
  and one that delivers them reversed answers Apple: the answer is not always the
  lexicographically smallest of the most frequent names, and it is not determined by the rows.
\<close>

theorem food_tie_counterexample:
  "rearranges (\<lambda>gs :: (string \<times> int) list. gs)
   \<and> rearranges (rev :: (string \<times> int) list \<Rightarrow> (string \<times> int) list)
   \<and> food_counts (week_rows tie_scenario 1700000000000000 7) = [(''Banana'', 1), (''Apple'', 1)]
   \<and> ''Apple'' < ''Banana''
   \<and> map_option most_common_food (get_weekly_stats (\<lambda>gs. gs) tie_scenario 1700000000000000 7)
       = Some (Some ''Banana'')
   \<and> map_option most_common_food (get_weekly_stats rev tie_scenario 1700000000000000 7)
       = Some (Some ''Apple'')
   \<and> map_option top_foods (get_all_time_stats (\<lambda>gs. gs) tie_scenario 7)
       = Some [(''Banana'', 1), (''Apple'', 1)]
   \<and> map_option top_foods (get_all_time_stats rev tie_scenario 7)
       = Some [(''Apple'', 1), (''Banana'', 1)]"
proof -
  have lt: "''Apple'' < ''Banana''"
    by (simp add: less_char_def)
  have n: "sql_count (nutrition_history tie_scenario) = 2"
    by (simp add: tie_scenario_def sql_count_def)
  have w1: "map_option most_common_food (get_weekly_stats (\<lambda>gs. gs) tie_scenario 1700000000000000 7)
       = Some (Some ''Banana'')"
    by (simp add: get_weekly_stats_def tie_scenario_week Let_def n top_foods_query_def
        tie_scenario_counts order_by_desc_def sql_limit_def fetchone_def)
  have w2: "map_option most_common_food (get_weekly_stats rev tie_scenario 1700000000000000 7)
       = Some (Some ''Apple'')"
    by (simp add: get_weekly_stats_def tie_scenario_week Let_def n top_foods_query_def
        tie_scenario_counts order_by_desc_def sql_limit_def fetchone_def)
  have a1: "map_option top_foods (get_all_time_stats (\<lambda>gs. gs) tie_scenario 7)
       = Some [(''Banana'', 1), (''Apple'', 1)]"
    by (simp add: get_all_time_stats_def tie_scenario_user Let_def n top_foods_query_def
        tie_scenario_counts order_by_desc_def sql_limit_def)
  have a2: "map_option top_foods (get_all_time_stats rev tie_scenario 7)
       = Some [(''Apple'', 1), (''Banana'', 1)]"
    by (simp add: get_all_time_stats_def tie_scenario_user Let_def n top_foods_query_def
        tie_scenario_counts order_by_desc_def sql_limit_def)
  show ?thesis
    using rearranges_same rearranges_rev lt w1 w2 a1 a2
    by (simp only: tie_scenario_week tie_scenario_counts simp_thms)
qed

text \<open>
  Claim C1, amended. Whatever order the engine delivers equal counts in, the most common
  food of the week is a food name of the week's rows that no other name occurs more often
  than; and the top foods of the all-time statistics are distinct names, each with its number
  of rows, in non-increasing order of that number, three of them or all names when there are
  fewer, and no name left out occurs more often than a name listed. Nothing is said about
  which of several equally frequent names comes first.
\<close>

theorem food_ranking_by_count:
  assumes "rearranges scan"
  shows "(\<forall>s. get_weekly_stats scan db now uid = Some s \<longrightarrow>
            (\<exists>n. most_common_food s = Some n \<and> n \<in> food_name ` set (week_rows db now uid)
               \<and> (\<forall>m. occurrences m (week_rows db now uid) \<le> occurrences n (week_rows db now uid))))
       \<and> (\<forall>s. get_all_time_stats scan db uid = Some s \<longrightarrow>
            sorted_wrt (\<lambda>a b. snd b \<le> snd a) (top_foods s)
          \<and> distinct (map fst (top_foods s))
          \<and> length (top_foods s) = min 3 (card (food_name ` set (user_rows db uid)))
          \<and> (\<forall>(n, c) \<in> set (top_foods s).
                n \<in> food_name ` set (user_rows db uid) \<and> c = occurrences n (user_rows db uid)
              \<and> (\<forall>m. m \<notin> fst ` set (top_foods s) \<longrightarrow> occurrences m (user_rows db uid) \<le> c)))"
proof -
  have weekly: "\<exists>n. most_common_food s = Some n \<and> n \<in> food_name ` set (week_rows db now uid)
               \<and> (\<forall>m. occurrences m (week_rows db now uid) \<le> occurrences n (week_rows db now uid))"
    if w: "get_weekly_stats scan db now uid = Some s" for s
  proof -
    let ?rs = "week_rows db now uid"
    let ?q = "top_foods_query scan 1 ?rs"
    have ne: "?rs \<noteq> []"
      using w by (auto simp: get_weekly_stats_def Let_def sql_count_def split: if_splits)
    have mc: "most_common_food s = map_option fst (fetchone ?q)"
      using w by (auto simp: get_weekly_stats_def Let_def split: if_splits)
    have "0 < card (food_name ` set ?rs)"
      using ne by (simp add: card_gt_0_iff)
    then have len: "length ?q = 1"
      using top_foods_query_facts(3) [OF assms, where j = 1 and rs = ?rs] by simp
    then obtain n c where q: "?q = [(n, c)]"
      by (cases ?q) (auto simp: length_Suc_conv)
    have top: "(n, c) \<in> set ?q"
      by (simp add: q)
    have c: "n \<in> food_name ` set ?rs" "c = occurrences n ?rs"
      using top_foods_query_facts(4) [OF assms _ top] by simp_all
    have "occurrences m ?rs \<le> occurrences n ?rs" for m
    proof (cases "m = n")
      case True
      then show ?thesis by simp
    next
      case False
      then have "m \<notin> fst ` set ?q"
        by (simp add: q)
      then show ?thesis
        using top_foods_query_facts(5) [OF assms _ top, of m] c(2) by simp
    qed
    with c(1) mc q show ?thesis
      by (simp add: fetchone_def)
  qed
  have all_time: "sorted_wrt (\<lambda>a b. snd b \<le> snd a) (top_foods s)
          \<and> distinct (map fst (top_foods s))
          \<and> length (top_foods s) = min 3 (card (food_name ` set (user_rows db uid)))
          \<and> (\<forall>(n, c) \<in> set (top_foods s).
                n \<in> food_name ` set (user_rows db uid) \<and> c = occurrences n (user_rows db uid)
              \<and> (\<forall>m. m \<notin> fst ` set (top_foods s) \<longrightarrow> occurrences m (user_rows db uid) \<le> c))"
    if a: "get_all_time_stats scan db uid = Some s" for s
  proof -
    let ?rs = "user_rows db uid"
    have tf: "top_foods s = top_foods_query scan 3 ?rs"
      using a by (auto simp: get_all_time_stats_def Let_def split: if_splits)
    show ?thesis
      unfolding tf
      using top_foods_query_facts [OF assms, where j = 3 and rs = ?rs]
      by (auto simp del: split_paired_All)
  qed
  from weekly all_time show ?thesis by blast
qed

theorem food_ranking_by_count_witness:
  "rearranges (rev :: (string \<times> int) list \<Rightarrow> (string \<times> int) list)
   \<and> map_option most_common_food (get_weekly_stats rev weekly_scenario 1700000000000000 7)
       = Some (Some ''Apple'')
   \<and> map_option top_foods (get_all_time_stats rev weekly_scenario 7)
       = Some [(''Apple'', 3), (''Stew'', 1), (''Banana'', 1)]"
proof -
  have w: "map_option most_common_food (get_weekly_stats rev weekly_scenario 1700000000000000 7)
       = Some (Some ''Apple'')"
    by (simp add: get_weekly_stats_def Let_def top_foods_query_def weekly_scenario_week_counts
        order_by_desc_def sql_limit_def fetchone_def)
      (simp add: weekly_scenario_rows sql_count_def)
  have a: "map_option top_foods (get_all_time_stats rev weekly_scenario 7)
       = Some [(''Apple'', 3), (''Stew'', 1), (''Banana'', 1)]"
    by (simp add: get_all_time_stats_def Let_def top_foods_query_def weekly_scenario_user_counts
        order_by_desc_def sql_limit_def)
      (simp add: weekly_scenario_user sql_count_def)
  show ?thesis
    using rearranges_rev w a
      food_ranking_by_count [OF rearranges_rev, of weekly_scenario 1700000000000000 7]
    by blast
qed

section \<open>The client: replies that are no JSON object\<close>

text \<open>
  Claim C4. A reply that \<^verbatim>\<open>json.loads\<close> rejects is answered with the parse-failure message.
  A reply that is valid JSON but no object, here a list of two foods, is not: the unpacking
  \<^verbatim>\<open>NutritionInfo(**data)\<close> raises a \<^verbatim>\<open>TypeError\<close> that only the outer handler catches, and
  the answer is the message of a failed request, "Failed to analyze image: ...", as for an
  exception of the service.
\<close>

theorem non_object_reply_not_parse_failed:
  "analyze_food_image rt (Content (Some NotJSON)) = ErrorResponse parse_failed
   \<and> analyze_food_image rt (Content (Some (Loads several_foods)))
       = ErrorResponse (''Failed to analyze image: '' @ interpreter_text rt (MappingTypeError several_foods))
   \<and> analyze_food_image rt (Content (Some (Loads several_foods))) \<noteq> ErrorResponse parse_failed
   \<and> analyze_food_image rt (Raised msg) = ErrorResponse (''Failed to analyze image: '' @ msg)"
  by (simp add: analyze_food_image_def analyze_body_def contains_error_def NutritionInfo_kwargs_def
      exception_text_def several_foods_def parse_failed_def)

section \<open>The client: the error field\<close>

text \<open>
  An object with an \<^verbatim>\<open>error\<close> text and all eight nutrition fields, every one valid, is
  answered with the error text, not with the nutrition record.
\<close>

theorem error_field_counterexample:
  "map_of food_with_error ''error'' = Some (JString ''Estimate may be off.'')
   \<and> NutritionInfo_init json_runtime food_with_error =
       Some \<lparr>food_name = ''Soup'', calories = 250, protein_g = 10, carbs_g = 20, fats_g = 5,
         fiber_g = 2, serving_size = ''1 plate'', confidence = ''high''\<rparr>
   \<and> analyze_food_image json_runtime (Content (Some (Loads (JObject food_with_error))))
       = ErrorResponse ''Estimate may be off.''"
  by (simp add: analyze_object food_with_error_def soup_fields_def NutritionInfo_init_def required_def)

text \<open>
  Claim C3, amended. For a reply that is a JSON object, the answer is the error response that
  carries the text of the \<^verbatim>\<open>error\<close> field whenever the object has such a field and its
  value is taken as a text, whatever else the object holds; an object without the field is
  answered with the nutrition record or with the invalid-format message.
\<close>

theorem error_field_decides:
  "(map_of items ''error'' = Some v \<and> validate_str rt v = Some msg \<longrightarrow>
      analyze_food_image rt (Content (Some (Loads (JObject items)))) = ErrorResponse msg)
   \<and> (map_of items ''error'' = None \<longrightarrow>
      analyze_food_image rt (Content (Some (Loads (JObject items)))) =
        (case NutritionInfo_init rt items of
           Some nutrition_info \<Rightarrow> NutritionResult nutrition_info
         | None \<Rightarrow> ErrorResponse invalid_format))"
  by (simp add: analyze_object)

theorem error_field_decides_witness:
  "map_of not_food ''error'' = Some (JString ''The image shows a car, not food.'')
   \<and> validate_str json_runtime (JString ''The image shows a car, not food.'')
       = Some ''The image shows a car, not food.''
   \<and> analyze_food_image json_runtime (Content (Some (Loads (JObject not_food))))
       = ErrorResponse ''The image shows a car, not food.''
   \<and> map_of soup_fields ''error'' = None
   \<and> analyze_food_image json_runtime (Content (Some (Loads (JObject soup_fields))))
       = NutritionResult \<lparr>food_name = ''Soup'', calories = 250, protein_g = 10, carbs_g = 20,
           fats_g = 5, fiber_g = 2, serving_size = ''1 plate'', confidence = ''high''\<rparr>"
proof -
  have a: "map_of not_food ''error'' = Some (JString ''The image shows a car, not food.'')"
    by (simp add: not_food_def)
  have b: "map_of soup_fields ''error'' = None"
    by (simp add: soup_fields_def)
  have c: "NutritionInfo_init json_runtime soup_fields =
       Some \<lparr>food_name = ''Soup'', calories = 250, protein_g = 10, carbs_g = 20,
           fats_g = 5, fiber_g = 2, serving_size = ''1 plate'', confidence = ''high''\<rparr>"
    by (simp add: soup_fields_def NutritionInfo_init_def required_def)
  show ?thesis
    using a b
      error_field_decides [of not_food "JString ''The image shows a car, not food.''" json_runtime
        "''The image shows a car, not food.''"]
      error_field_decides [of soup_fields _ json_runtime]
    by (simp add: c)
qed

section \<open>The client: validation of the fields\<close>

text \<open>
  An object with an empty food name, calories of -5, an empty serving size and the confidence
  "banana" is answered with a nutrition record that holds these values.
\<close>

theorem schema_counterexample:
  "map_of negative_meal ''error'' = None
   \<and> analyze_food_image json_runtime (Content (Some (Loads (JObject negative_meal))))
       = NutritionResult \<lparr>food_name = '''', calories = - 5, protein_g = 1, carbs_g = 2,
           fats_g = 3, fiber_g = 4, serving_size = '''', confidence = ''banana''\<rparr>"
  by (simp add: analyze_object negative_meal_def NutritionInfo_init_def required_def)

text \<open>
  Claim C2, amended. For a reply that is a JSON object without an \<^verbatim>\<open>error\<close> field: when each
  of the eight fields is present with a value that the validator of its declared type takes
  (text for the name, the serving size and the confidence, number for the five macros), the
  answer is the nutrition record of the validated values; when a field is missing or its
  value is rejected for its type, the answer is the invalid-format error. The answer depends
  on the fields in no other way.
\<close>

theorem schema_validation:
  assumes "map_of items ''error'' = None"
  shows "if (\<forall>k \<in> set str_fields. accepted (validate_str rt) items k)
          \<and> (\<forall>k \<in> set float_fields. accepted (validate_float rt) items k)
         then \<exists>n. analyze_food_image rt (Content (Some (Loads (JObject items)))) = NutritionResult n
            \<and> required (validate_str rt) items ''food_name'' = Some (food_name n)
            \<and> required (validate_float rt) items ''calories'' = Some (calories n)
            \<and> required (validate_float rt) items ''protein_g'' = Some (protein_g n)
            \<and> required (validate_float rt) items ''carbs_g'' = Some (carbs_g n)
            \<and> required (validate_float rt) items ''fats_g'' = Some (fats_g n)
            \<and> required (validate_float rt) items ''fiber_g'' = Some (fiber_g n)
            \<and> required (validate_str rt) items ''serving_size'' = Some (serving_size n)
            \<and> required (validate_str rt) items ''confidence'' = Some (confidence n)
         else analyze_food_image rt (Content (Some (Loads (JObject items)))) = ErrorResponse invalid_format"
proof (cases "NutritionInfo_init rt items")
  case None
  then have "\<not> ((\<forall>k \<in> set str_fields. accepted (validate_str rt) items k)
          \<and> (\<forall>k \<in> set float_fields. accepted (validate_float rt) items k))"
    unfolding NutritionInfo_init_None by (auto simp: str_fields_def float_fields_def accepted_required)
  with None assms show ?thesis
    by (simp add: analyze_object)
next
  case (Some n)
  then have all: "(\<forall>k \<in> set str_fields. accepted (validate_str rt) items k)
          \<and> (\<forall>k \<in> set float_fields. accepted (validate_float rt) items k)"
    unfolding NutritionInfo_init_Some by (simp add: str_fields_def float_fields_def accepted_required)
  have "analyze_food_image rt (Content (Some (Loads (JObject items)))) = NutritionResult n"
    using Some assms by (simp add: analyze_object)
  with Some [unfolded NutritionInfo_init_Some]
  have "\<exists>n. analyze_food_image rt (Content (Some (Loads (JObject items)))) = NutritionResult n
            \<and> required (validate_str rt) items ''food_name'' = Some (food_name n)
            \<and> required (validate_float rt) items ''calories'' = Some (calories n)
            \<and> required (validate_float rt) items ''protein_g'' = Some (protein_g n)
            \<and> required (validate_float rt) items ''carbs_g'' = Some (carbs_g n)
            \<and> required (validate_float rt) items ''fats_g'' = Some (fats_g n)
            \<and> required (validate_float rt) items ''fiber_g'' = Some (fiber_g n)
            \<and> required (validate_str rt) items ''serving_size'' = Some (serving_size n)
            \<and> required (validate_str rt) items ''confidence'' = Some (confidence n)"
    by (intro exI [of _ n]) simp
  then show ?thesis
    unfolding if_P [OF all] .
qed

theorem schema_validation_witness:
  "map_of incomplete_meal ''error'' = None
   \<and> analyze_food_image json_runtime (Content (Some (Loads (JObject incomplete_meal))))
       = ErrorResponse invalid_format
   \<and> map_of ill_typed_meal ''error'' = None
   \<and> analyze_food_image json_runtime (Content (Some (Loads (JObject ill_typed_meal))))
       = ErrorResponse invalid_format
   \<and> map_of soup_fields ''error'' = None
   \<and> (\<exists>n. analyze_food_image json_runtime (Content (Some (Loads (JObject soup_fields))))
          = NutritionResult n \<and> food_name n = ''Soup'' \<and> calories n = 250 \<and> confidence n = ''high'')"
proof -
  have a: "map_of incomplete_meal ''error'' = None"
    by (simp add: incomplete_meal_def)
  have "\<not> accepted (validate_str json_runtime) incomplete_meal ''confidence''"
    by (simp add: accepted_required required_def incomplete_meal_def)
  then have a': "\<not> ((\<forall>k \<in> set str_fields. accepted (validate_str json_runtime) incomplete_meal k)
          \<and> (\<forall>k \<in> set float_fields. accepted (validate_float json_runtime) incomplete_meal k))"
    by (simp add: str_fields_def)
  have a'': "analyze_food_image json_runtime (Content (Some (Loads (JObject incomplete_meal))))
       = ErrorResponse invalid_format"
    using schema_validation [OF a, of json_runtime] unfolding if_not_P [OF a'] .
  have b: "map_of ill_typed_meal ''error'' = None"
    by (simp add: ill_typed_meal_def)
  have "\<not> accepted (validate_float json_runtime) ill_typed_meal ''calories''"
    by (simp add: accepted_required required_def ill_typed_meal_def json_runtime_def)
  then have b': "\<not> ((\<forall>k \<in> set str_fields. accepted (validate_str json_runtime) ill_typed_meal k)
          \<and> (\<forall>k \<in> set float_fields. accepted (validate_float json_runtime) ill_typed_meal k))"
    by (simp add: float_fields_def)
  have b'': "analyze_food_image json_runtime (Content (Some (Loads (JObject ill_typed_meal))))
       = ErrorResponse invalid_format"
    using schema_validation [OF b, of json_runtime] unfolding if_not_P [OF b'] .
  have c: "map_of soup_fields ''error'' = None"
    by (simp add: soup_fields_def)
  have c': "(\<forall>k \<in> set str_fields. accepted (validate_str json_runtime) soup_fields k)
          \<and> (\<forall>k \<in> set float_fields. accepted (validate_float json_runtime) soup_fields k)"
    by (simp add: str_fields_def float_fields_def accepted_required required_def soup_fields_def)
  have r: "required (validate_str json_runtime) soup_fields ''food_name'' = Some ''Soup''"
    "required (validate_float json_runtime) soup_fields ''calories'' = Some 250"
    "required (validate_str json_runtime) soup_fields ''confidence'' = Some ''high''"
    by (simp_all add: required_def soup_fields_def)
  have c'': "\<exists>n. analyze_food_image json_runtime (Content (Some (Loads (JObject soup_fields))))
          = NutritionResult n \<and> food_name n = ''Soup'' \<and> calories n = 250 \<and> confidence n = ''high''"
    using schema_validation [OF c, of json_runtime] unfolding if_P [OF c'] r by auto
  from a a'' b b'' c c'' show ?thesis
    by (intro conjI)
qed

end
